theory Spec2Isabelle
  imports Complex_Main "HOL-Library.Multiset" "HOL-Library.AList" "HOL-Library.Char_ord"
    "HOL-Library.List_Lexorder" "HOL-Library.Product_Lexorder" "HOL-Library.Log_Nat"
begin

section \<open>Promoter: \<open>training/promote_model.py\<close>\<close>

text \<open>
  A metrics file holds a JSON document. Python's \<open>json.loads\<close> yields \<open>int\<close>, \<open>float\<close>,
  \<open>bool\<close>, \<open>str\<close>, \<open>None\<close>, lists and dicts. A float is a finite value (the rational it
  denotes), an infinity or \<open>NaN\<close>: \<open>json.loads\<close> accepts the tokens \<open>NaN\<close>, \<open>Infinity\<close> and
  \<open>-Infinity\<close>. A nested object is an association list; the top-level document, which the
  code indexes as a \<open>dict\<close>, is a map.
\<close>

datatype pyfloat = Finite rat | PosInf | NegInf | NaN

datatype json =
    JNull
  | JBool bool
  | JInt int
  | JFloat pyfloat
  | JString string
  | JArray "json list"
  | JObject "(string \<times> json) list"

type_synonym metrics_doc = "string \<rightharpoonup> json"

datatype error =
    FileNotFoundError
  | JSONDecodeError
  | ValueError
  | SameFileError
  | OverflowError
  | DateParseError
  | DateNotFound string "int option" "int option"

text \<open>\<open>isinstance(v, (int, float))\<close>: \<open>bool\<close> is a subclass of \<open>int\<close> in Python.\<close>

fun is_int_or_float :: "json \<Rightarrow> bool" where
  "is_int_or_float (JInt _) = True"
| "is_int_or_float (JFloat _) = True"
| "is_int_or_float (JBool _) = True"
| "is_int_or_float _ = False"

text \<open>
  \<open>float(i)\<close> for a Python \<open>int\<close>: exact up to 53 bits, otherwise rounded to 53 significant
  bits, ties to even; \<open>OverflowError\<close> when the rounded value does not fit a double.
\<close>

definition int_to_float :: "int \<Rightarrow> error + pyfloat" where
  "int_to_float i =
     (let a = \<bar>i\<bar>; sh = bitlen a - 53 in
      if sh \<le> 0 then Inr (Finite (of_int i))
      else
        let q = a div 2 ^ nat sh;
            r = a mod 2 ^ nat sh;
            half = 2 ^ nat (sh - 1);
            q' = (if r > half \<or> (r = half \<and> odd q) then q + 1 else q);
            m = q' * 2 ^ nat sh
        in if m \<ge> 2 ^ 1024 then Inl OverflowError
           else Inr (Finite (of_int (sgn i * m))))"

text \<open>\<open>float(v)\<close> on a value that passed \<open>is_int_or_float\<close>.\<close>

fun py_float :: "json \<Rightarrow> error + pyfloat" where
  "py_float (JInt i) = int_to_float i"
| "py_float (JFloat f) = Inr f"
| "py_float (JBool b) = Inr (Finite (if b then 1 else 0))"
| "py_float _ = Inr (Finite 0)"

definition metric_keys :: "string list" where
  "metric_keys = [''pr_auc'', ''average_precision'', ''roc_auc'', ''f1'', ''accuracy'']"

text \<open>The \<open>for key in (...)\<close> loop of \<open>_score_from_metrics\<close>, over the remaining keys.\<close>

fun score_loop :: "string list \<Rightarrow> metrics_doc \<Rightarrow> error + string \<times> pyfloat" where
  "score_loop [] m = Inr (''unknown'', Finite (- 1))"
| "score_loop (key # keys) m =
     (case m key of
        Some v \<Rightarrow>
          (if is_int_or_float v
           then (case py_float v of Inl e \<Rightarrow> Inl e | Inr f \<Rightarrow> Inr (key, f))
           else score_loop keys m)
      | None \<Rightarrow> score_loop keys m)"

definition score_from_metrics :: "metrics_doc \<Rightarrow> error + string \<times> pyfloat" where
  "score_from_metrics m = score_loop metric_keys m"

text \<open>
  The document that \<open>train_baseline\<close> and \<open>train_candidate\<close> write with \<open>json.dump(meta, f)\<close>:
  seven top-level keys, the evaluation results nested under \<open>metrics\<close>. Reading the file back
  with \<open>json.loads\<close> gives the same top-level keys.
\<close>

definition evaluate_result :: "pyfloat \<Rightarrow> pyfloat \<Rightarrow> json \<Rightarrow> json \<Rightarrow> json \<Rightarrow> json" where
  "evaluate_result pr_auc roc_auc cm report pr_curve_sample =
     JObject [(''pr_auc'', JFloat pr_auc), (''roc_auc'', JFloat roc_auc),
              (''confusion_matrix'', cm), (''classification_report'', report),
              (''pr_curve_sample'', pr_curve_sample)]"

definition train_meta :: "string \<Rightarrow> string \<Rightarrow> int \<Rightarrow> int \<Rightarrow> pyfloat \<Rightarrow> pyfloat \<Rightarrow> json \<Rightarrow> metrics_doc" where
  "train_meta model_type model_file train_rows test_rows churn_rate_train churn_rate_test metrics =
     [''model_type'' \<mapsto> JString model_type,
      ''artifact'' \<mapsto> JString model_file,
      ''train_rows'' \<mapsto> JInt train_rows,
      ''test_rows'' \<mapsto> JInt test_rows,
      ''churn_rate_train'' \<mapsto> JFloat churn_rate_train,
      ''churn_rate_test'' \<mapsto> JFloat churn_rate_test,
      ''metrics'' \<mapsto> metrics]"

definition train_baseline_meta :: "string \<Rightarrow> int \<Rightarrow> int \<Rightarrow> pyfloat \<Rightarrow> pyfloat \<Rightarrow> json \<Rightarrow> metrics_doc" where
  "train_baseline_meta = train_meta ''logistic_regression''"

definition train_candidate_meta :: "string \<Rightarrow> int \<Rightarrow> int \<Rightarrow> pyfloat \<Rightarrow> pyfloat \<Rightarrow> json \<Rightarrow> metrics_doc" where
  "train_candidate_meta = train_meta ''hist_gradient_boosting''"

subsection \<open>Directory scan and promotion\<close>

text \<open>
  The two directories the promoter works on, as association lists from file name to content.
  A model artifact is opaque (\<open>'b\<close>). The content of a metrics file is the document
  \<open>json.loads\<close> reads from it, or \<open>None\<close> when the text is not valid JSON.
\<close>

record 'b file_system =
  models :: "(string \<times> 'b) list"
  metrics :: "(string \<times> metrics_doc option) list"

record candidate =
  model_path :: string
  metrics_path :: string
  score :: pyfloat
  metric_name :: string

record promotion =
  promoted_from_model :: string
  promoted_from_metrics :: string
  metric_used :: string
  promoted_score :: pyfloat

text \<open>\<open>metrics_dir.glob("*.json")\<close>: the names that end in \<open>.json\<close>.\<close>

definition is_json :: "string \<Rightarrow> bool" where
  "is_json name \<longleftrightarrow> 5 \<le> length name \<and> drop (length name - 5) name = ''.json''"

text \<open>
  \<open>Path.stem\<close> of a name that ends in \<open>.json\<close>: the name without its suffix, except for the
  name \<open>.json\<close> itself, whose leading dot is not a suffix separator.
\<close>

definition stem :: "string \<Rightarrow> string" where
  "stem name = (if length name = 5 then name else take (length name - 5) name)"

text \<open>\<open>sorted(metrics_dir.glob("*.json"))\<close>: paths of one directory compare by name.\<close>

definition scan :: "'b file_system \<Rightarrow> string list" where
  "scan fs = sort (filter is_json (map fst (metrics fs)))"

definition read_metrics :: "'b file_system \<Rightarrow> string \<Rightarrow> error + metrics_doc" where
  "read_metrics fs mp =
     (case map_of (metrics fs) mp of
        None \<Rightarrow> Inl FileNotFoundError
      | Some None \<Rightarrow> Inl JSONDecodeError
      | Some (Some m) \<Rightarrow> Inr m)"

text \<open>\<open>model_guess.exists()\<close> for the metrics file \<open>mp\<close>: the pair is complete.\<close>

definition has_model :: "'b file_system \<Rightarrow> string \<Rightarrow> bool" where
  "has_model fs mp \<longleftrightarrow> map_of (models fs) (stem mp @ ''.joblib'') \<noteq> None"

text \<open>The loop of \<open>_find_candidates\<close> over the remaining paths of the scan.\<close>

fun find_loop :: "'b file_system \<Rightarrow> string list \<Rightarrow> error + candidate list" where
  "find_loop fs [] = Inr []"
| "find_loop fs (mp # mps) =
     (let model_guess = stem mp @ ''.joblib'' in
      if \<not> has_model fs mp then find_loop fs mps
      else
        (case read_metrics fs mp of
           Inl e \<Rightarrow> Inl e
         | Inr m \<Rightarrow>
             (case score_from_metrics m of
                Inl e \<Rightarrow> Inl e
              | Inr (name, sc) \<Rightarrow>
                  (case find_loop fs mps of
                     Inl e \<Rightarrow> Inl e
                   | Inr out \<Rightarrow>
                       Inr (\<lparr>model_path = model_guess, metrics_path = mp,
                             score = sc, metric_name = name\<rparr> # out)))))"

definition find_candidates :: "'b file_system \<Rightarrow> error + candidate list" where
  "find_candidates fs = find_loop fs (scan fs)"

text \<open>
  \<open>sorted(xs, key=k, reverse=True)\<close>: Python's sort is stable, and \<open>reverse=True\<close> keeps
  elements with equal keys in their original order: the list is reversed, sorted
  ascending and stably, and reversed again.
\<close>

definition py_sorted_reverse :: "('a \<Rightarrow> 'k::linorder) \<Rightarrow> 'a list \<Rightarrow> 'a list" where
  "py_sorted_reverse k xs = rev (sort_key k (rev xs))"

text \<open>
  The order of floats that are not \<open>NaN\<close>, as a key: \<open>-inf\<close>, the finite values, \<open>inf\<close>.
  \<open>NaN\<close> compares false with everything, so with a \<open>NaN\<close> key the result of \<open>sorted\<close>
  depends on the comparisons its algorithm happens to make. The model therefore takes
  \<open>sorted(..., reverse=True)\<close> on float keys as a parameter, of which only this is known:
  on keys without \<open>NaN\<close> it is the stable descending sort.
\<close>

fun fkey :: "pyfloat \<Rightarrow> int \<times> rat" where
  "fkey NegInf = (- 1, 0)"
| "fkey (Finite q) = (0, q)"
| "fkey PosInf = (1, 0)"
| "fkey NaN = (2, 0)"


text \<open>The stable descending sort itself, which is \<open>sorted\<close> on inputs without \<open>NaN\<close>.\<close>

definition sorted_rev_no_nan :: "('a \<Rightarrow> pyfloat) \<Rightarrow> 'a list \<Rightarrow> 'a list" where
  "sorted_rev_no_nan k xs = py_sorted_reverse (\<lambda>x. fkey (k x)) xs"

text \<open>\<open>best = sorted(candidates, key=lambda c: c.score, reverse=True)[0]\<close>, on a non-empty list.\<close>

definition best_candidate ::
  "((candidate \<Rightarrow> pyfloat) \<Rightarrow> candidate list \<Rightarrow> candidate list) \<Rightarrow> candidate list \<Rightarrow> candidate" where
  "best_candidate sorted_rev candidates = hd (sorted_rev score candidates)"

definition prod_model :: string where
  "prod_model = ''production_latest.joblib''"

definition prod_metrics :: string where
  "prod_metrics = ''production_latest.json''"

text \<open>
  \<open>shutil.copy2(src, dst)\<close> inside one directory: raises \<open>SameFileError\<close> when both
  names are the same file, \<open>FileNotFoundError\<close> when the source is gone.
\<close>

definition copy2 :: "(string \<times> 'c) list \<Rightarrow> string \<Rightarrow> string \<Rightarrow> error + (string \<times> 'c) list" where
  "copy2 dir src dst =
     (if src = dst then Inl SameFileError
      else case map_of dir src of
             None \<Rightarrow> Inl FileNotFoundError
           | Some c \<Rightarrow> Inr (AList.update dst c dir))"

text \<open>
  \<open>promote_model\<close> returns its result together with the file system it leaves behind, so
  that the state after a raised error is visible. The two \<open>mkdir(exist_ok=True)\<close> calls
  create no file and change no file.
\<close>

definition promote_model ::
  "((candidate \<Rightarrow> pyfloat) \<Rightarrow> candidate list \<Rightarrow> candidate list)
    \<Rightarrow> 'b file_system \<Rightarrow> (error + promotion) \<times> 'b file_system" where
  "promote_model sorted_rev fs =
     (case find_candidates fs of
        Inl e \<Rightarrow> (Inl e, fs)
      | Inr candidates \<Rightarrow>
          if candidates = [] then (Inl FileNotFoundError, fs)
          else
            let best = best_candidate sorted_rev candidates in
            (case copy2 (models fs) (model_path best) prod_model of
               Inl e \<Rightarrow> (Inl e, fs)
             | Inr models' \<Rightarrow>
                 let fs1 = fs\<lparr>models := models'\<rparr> in
                 (case copy2 (metrics fs1) (metrics_path best) prod_metrics of
                    Inl e \<Rightarrow> (Inl e, fs1)
                  | Inr metrics' \<Rightarrow>
                      (Inr \<lparr>promoted_from_model = model_path best,
                            promoted_from_metrics = metrics_path best,
                            metric_used = metric_name best,
                            promoted_score = score best\<rparr>,
                       fs1\<lparr>metrics := metrics'\<rparr>))))"

text \<open>Concrete directory states, used to instantiate the theorems below.\<close>

definition fs_empty_pairs :: "nat file_system" where
  "fs_empty_pairs =
     \<lparr>models = [(''production_latest.joblib'', 7), (''a.joblib'', 1)],
      metrics = [(''b.json'', None), (''notes.txt'', None)]\<rparr>"




section \<open>Splitter: \<open>_time_split\<close> in \<open>training/train_baseline.py\<close> and \<open>training/train_candidate.py\<close>\<close>

text \<open>
  A data frame is modelled row-wise: its column names, and for each row the cell of the
  \<open>as_of_date\<close> column together with the rest of the row (\<open>'r\<close>, opaque). A cell read from
  CSV is text. \<open>pd.to_datetime(column, errors="coerce")\<close> is the library's parser and is a
  parameter of the model. It parses the column as a whole (pandas infers one format for
  the column), so the parameter maps the list of cells to the list of results, \<open>None\<close> being
  \<open>NaT\<close>. A parsed timestamp is its number of nanoseconds since the epoch, and \<open>.dt.date\<close> is
  the number of its calendar day.
\<close>

type_synonym timestamp = int

definition ns_per_day :: int where
  "ns_per_day = 86400000000000"

definition date_of :: "timestamp \<Rightarrow> int" where
  "date_of t = t div ns_per_day"

record ('c, 'r) row =
  as_of_date :: 'c
  rest :: 'r

record 'r frame =
  columns :: "string list"
  rows :: "(string, 'r) row list"

text \<open>\<open>d["as_of_date"] = pd.to_datetime(d["as_of_date"], errors="coerce")\<close>\<close>

definition coerce :: "(string list \<Rightarrow> timestamp option list) \<Rightarrow> (string, 'r) row list
    \<Rightarrow> (timestamp option, 'r) row list" where
  "coerce to_datetime rs =
     map2 (\<lambda>t r. \<lparr>as_of_date = t, rest = rest r\<rparr>) (to_datetime (map as_of_date rs)) rs"

text \<open>\<open>d.dropna(subset=["as_of_date"]).reset_index(drop=True)\<close>\<close>

definition dropna :: "(timestamp option, 'r) row list \<Rightarrow> (timestamp, 'r) row list" where
  "dropna rs = List.map_filter
     (\<lambda>r. case as_of_date r of None \<Rightarrow> None
          | Some t \<Rightarrow> Some \<lparr>as_of_date = t, rest = rest r\<rparr>) rs"

text \<open>\<open>sorted(d["as_of_date"].dt.date.unique().tolist())\<close>\<close>

definition distinct_dates :: "(timestamp, 'r) row list \<Rightarrow> int list" where
  "distinct_dates d = sort (remdups (map (\<lambda>r. date_of (as_of_date r)) d))"

text \<open>
  \<open>test_size\<close> is a Python float, here the rational it denotes. The product
  \<open>len(...) * (1 - test_size)\<close> is computed in double arithmetic, with rounding, and is a
  parameter of the model: \<open>fl n test_size\<close> is the double the code obtains. What IEEE
  arithmetic guarantees for it (rounding is monotone and \<open>0\<close>, \<open>1\<close> and \<open>n\<close> are doubles): for
  \<open>0 < test_size < 1\<close> it lies between \<open>0\<close> and \<open>n\<close>, both included. \<open>int(x)\<close> truncates
  towards zero.
\<close>

definition double_product :: "(nat \<Rightarrow> rat \<Rightarrow> rat) \<Rightarrow> bool" where
  "double_product fl \<longleftrightarrow>
     (\<forall>n test_size. 0 < test_size \<and> test_size < 1 \<longrightarrow>
        0 \<le> fl n test_size \<and> fl n test_size \<le> of_nat n)"

text \<open>
  The product without rounding. It is what the code computes when no operation rounds, as
  for a small \<open>n\<close> and a \<open>test_size\<close> such as \<open>0.25\<close>, \<open>0.5\<close> or \<open>0.75\<close>.
\<close>

definition exact_product :: "nat \<Rightarrow> rat \<Rightarrow> rat" where
  "exact_product n test_size = of_nat n * (1 - test_size)"

definition py_int :: "rat \<Rightarrow> int" where
  "py_int x = (if 0 \<le> x then \<lfloor>x\<rfloor> else \<lceil>x\<rceil>)"

text \<open>\<open>xs[:k]\<close> and \<open>xs[k:]\<close> (\<open>iloc\<close>): a negative \<open>k\<close> counts from the end.\<close>

definition slice_to :: "int \<Rightarrow> 'a list \<Rightarrow> 'a list" where
  "slice_to k xs = (if 0 \<le> k then take (nat k) xs else take (length xs - nat (- k)) xs)"

definition slice_from :: "int \<Rightarrow> 'a list \<Rightarrow> 'a list" where
  "slice_from k xs = (if 0 \<le> k then drop (nat k) xs else drop (length xs - nat (- k)) xs)"

text \<open>
  \<open>DataFrame.sort_values\<close> with its default \<open>kind="quicksort"\<close> is the library's and is a
  parameter of the model. What the library promises for it: the result holds the same rows
  and is ordered by the key. It does not promise to keep rows with equal keys in their
  original order (only \<open>kind="stable"\<close> and \<open>"mergesort"\<close> do).
\<close>

definition sorts_ascending :: "(('a \<Rightarrow> 'k::linorder) \<Rightarrow> 'a list \<Rightarrow> 'a list) \<Rightarrow> bool" where
  "sorts_ascending sort_values \<longleftrightarrow>
     (\<forall>k xs. mset (sort_values k xs) = mset xs \<and> sorted (map k (sort_values k xs)))"

definition cutoff_idx :: "(nat \<Rightarrow> rat \<Rightarrow> rat) \<Rightarrow> (timestamp, 'r) row list \<Rightarrow> rat \<Rightarrow> int" where
  "cutoff_idx fl d test_size = py_int (fl (length d) test_size)"

definition cut_at :: "(nat \<Rightarrow> rat \<Rightarrow> rat) \<Rightarrow> int list \<Rightarrow> rat \<Rightarrow> int" where
  "cut_at fl dates test_size =
     max 1 (min (py_int (fl (length dates) test_size)) (int (length dates) - 1))"

definition cutoff_date :: "(nat \<Rightarrow> rat \<Rightarrow> rat) \<Rightarrow> int list \<Rightarrow> rat \<Rightarrow> int" where
  "cutoff_date fl dates test_size = dates ! nat (cut_at fl dates test_size - 1)"

text \<open>The first three statements of \<open>_time_split\<close> after the column check: the rows it works on.\<close>

definition parsed_rows :: "(string list \<Rightarrow> timestamp option list) \<Rightarrow> 'r frame \<Rightarrow> (timestamp, 'r) row list" where
  "parsed_rows to_datetime df = dropna (coerce to_datetime (rows df))"

definition time_split ::
  "(string list \<Rightarrow> timestamp option list)
    \<Rightarrow> (((timestamp, 'r) row \<Rightarrow> timestamp) \<Rightarrow> (timestamp, 'r) row list \<Rightarrow> (timestamp, 'r) row list)
    \<Rightarrow> (nat \<Rightarrow> rat \<Rightarrow> rat)
    \<Rightarrow> 'r frame \<Rightarrow> rat
    \<Rightarrow> error + ((timestamp, 'r) row list \<times> (timestamp, 'r) row list)" where
  "time_split to_datetime sort_values fl df test_size =
     (if ''as_of_date'' \<notin> set (columns df) then Inl ValueError
      else
        let d = parsed_rows to_datetime df;
            dates = distinct_dates d
        in if length dates < 5 then
             let d' = sort_values as_of_date d
             in Inr (slice_to (cutoff_idx fl d' test_size) d',
                     slice_from (cutoff_idx fl d' test_size) d')
           else
             Inr (filter (\<lambda>r. date_of (as_of_date r) \<le> cutoff_date fl dates test_size) d,
                  filter (\<lambda>r. date_of (as_of_date r) > cutoff_date fl dates test_size) d))"

text \<open>
  A parser for the concrete inputs below: ISO dates of a few known days, at midnight,
  anything else unparseable; and the column parser it gives on a column whose dates are
  all in this one format.
\<close>

definition iso_table :: "string \<Rightarrow> timestamp option" where
  "iso_table = map_of
     [(''2024-01-01'', 19723 * ns_per_day), (''2024-01-02'', 19724 * ns_per_day),
      (''2024-01-03'', 19725 * ns_per_day), (''2024-01-04'', 19726 * ns_per_day),
      (''2024-01-05'', 19727 * ns_per_day), (''2024-01-06'', 19728 * ns_per_day),
      (''2026-01-01'', 20454 * ns_per_day), (''2026-02-01'', 20485 * ns_per_day),
      (''2026-03-01'', 20513 * ns_per_day)]"

definition iso_column :: "string list \<Rightarrow> timestamp option list" where
  "iso_column cells = map iso_table cells"

definition two_day_frame :: "nat frame" where
  "two_day_frame =
     \<lparr>columns = [''user_id'', ''as_of_date'', ''churn_label''],
      rows = [\<lparr>as_of_date = ''2024-01-01'', rest = 1\<rparr>,
              \<lparr>as_of_date = ''2024-01-02'', rest = 2\<rparr>]\<rparr>"

definition six_day_frame :: "nat frame" where
  "six_day_frame =
     \<lparr>columns = [''user_id'', ''as_of_date'', ''churn_label''],
      rows = [\<lparr>as_of_date = ''2024-01-03'', rest = 1\<rparr>,
              \<lparr>as_of_date = ''2024-01-01'', rest = 2\<rparr>,
              \<lparr>as_of_date = ''not a date'', rest = 3\<rparr>,
              \<lparr>as_of_date = ''2024-01-06'', rest = 4\<rparr>,
              \<lparr>as_of_date = ''2024-01-02'', rest = 5\<rparr>,
              \<lparr>as_of_date = ''2024-01-05'', rest = 6\<rparr>,
              \<lparr>as_of_date = ''2024-01-04'', rest = 7\<rparr>,
              \<lparr>as_of_date = ''2024-01-01'', rest = 8\<rparr>]\<rparr>"

section \<open>Batch scorer: \<open>inference/batch_score.py\<close>\<close>

subsection \<open>\<open>_pick_as_of_date\<close>\<close>

text \<open>
  The function returns \<open>date.isoformat()\<close>; the model returns the day number, and \<open>None\<close>
  for \<open>NaT\<close>, whose \<open>isoformat()\<close> is the text \<open>NaT\<close>. The error \<open>DateNotFound s lo hi\<close> is the
  \<open>ValueError\<close> whose message quotes the request \<open>s\<close> and the pool's least and greatest
  dates. The pool column is parsed as a whole, as in the splitter. An explicit request is
  parsed on its own by \<open>pd.to_datetime(as_of_date)\<close>, a second parameter of the model
  (\<open>to_datetime_scalar\<close>): \<open>None\<close> stands for the call raising its own error
  (\<open>DateParseError\<close>), whose message names no range.
\<close>

text \<open>\<open>if as_of_date:\<close> holds for a string that is neither \<open>None\<close> nor empty.\<close>

fun truthy :: "string option \<Rightarrow> bool" where
  "truthy None = False"
| "truthy (Some s) = (s \<noteq> [])"

text \<open>The parsed timestamps of the pool, \<open>NaT\<close> skipped, and their calendar days.\<close>

definition pool_timestamps :: "(string list \<Rightarrow> timestamp option list) \<Rightarrow> 'r frame \<Rightarrow> timestamp list" where
  "pool_timestamps to_datetime df = List.map_filter as_of_date (coerce to_datetime (rows df))"

definition pool_dates :: "(string list \<Rightarrow> timestamp option list) \<Rightarrow> 'r frame \<Rightarrow> int list" where
  "pool_dates to_datetime df = map date_of (pool_timestamps to_datetime df)"

text \<open>\<open>d["as_of_date"].min().date()\<close> and \<open>.max().date()\<close>: \<open>NaT\<close> when nothing parsed.\<close>

definition series_min :: "timestamp list \<Rightarrow> int option" where
  "series_min ts = (case ts of [] \<Rightarrow> None | t # ts' \<Rightarrow> Some (date_of (fold min ts' t)))"

definition series_max :: "timestamp list \<Rightarrow> int option" where
  "series_max ts = (case ts of [] \<Rightarrow> None | t # ts' \<Rightarrow> Some (date_of (fold max ts' t)))"

definition pick_as_of_date ::
  "(string list \<Rightarrow> timestamp option list) \<Rightarrow> (string \<Rightarrow> timestamp option)
    \<Rightarrow> 'r frame \<Rightarrow> string option \<Rightarrow> error + int option" where
  "pick_as_of_date to_datetime to_datetime_scalar df requested =
     (if ''as_of_date'' \<notin> set (columns df) then Inl ValueError
      else if truthy requested then
        (case to_datetime_scalar (the requested) of
           None \<Rightarrow> Inl DateParseError
         | Some t \<Rightarrow>
             if date_of t \<notin> set (pool_dates to_datetime df)
             then Inl (DateNotFound (the requested)
                        (series_min (pool_timestamps to_datetime df))
                        (series_max (pool_timestamps to_datetime df)))
             else Inr (Some (date_of t)))
      else Inr (series_max (pool_timestamps to_datetime df)))"

definition quarter_pool :: "nat frame" where
  "quarter_pool =
     \<lparr>columns = [''user_id'', ''as_of_date'', ''sessions_7d''],
      rows = [\<lparr>as_of_date = ''2026-02-01'', rest = 1\<rparr>,
              \<lparr>as_of_date = ''2026-03-01'', rest = 2\<rparr>,
              \<lparr>as_of_date = ''garbled'', rest = 3\<rparr>,
              \<lparr>as_of_date = ''2026-01-01'', rest = 4\<rparr>,
              \<lparr>as_of_date = ''2026-03-01'', rest = 5\<rparr>]\<rparr>"

subsection \<open>\<open>_write_predictions\<close>\<close>











text \<open>
  What pandas does for \<open>kind="quicksort"\<close> on the rows with a score, for a descending sort
  (\<open>nargsort\<close>): the rows are reversed, \<open>numpy.argsort\<close> orders them ascending, and the
  result is reversed again. \<open>argsort\<close> is modelled after NumPy's scalar implementation
  (\<open>npysort/quicksort.cpp\<close>, \<open>aquicksort\<close>): an introsort on the index array, with a
  median-of-three partition for ranges of more than 17 elements and an insertion sort
  below that. Its fallback to heapsort past the depth limit is not modelled (\<open>None\<close>), nor
  are the vectorised sorts NumPy selects on some processors.
\<close>

definition swap :: "nat list \<Rightarrow> nat \<Rightarrow> nat \<Rightarrow> nat list" where
  "swap arg i j = arg[i := arg ! j, j := arg ! i]"

text \<open>\<open>do ++pi; while (v[*pi] < vp)\<close> and \<open>do --pj; while (vp < v[*pj])\<close>\<close>

definition scan_up :: "real list \<Rightarrow> real \<Rightarrow> nat list \<Rightarrow> nat \<Rightarrow> nat" where
  "scan_up v vp arg start =
     (case find (\<lambda>i. \<not> v ! (arg ! i) < vp) [start..<length arg] of
        Some i \<Rightarrow> i | None \<Rightarrow> length arg)"

definition scan_down :: "real list \<Rightarrow> real \<Rightarrow> nat list \<Rightarrow> nat \<Rightarrow> nat" where
  "scan_down v vp arg start =
     (case find (\<lambda>j. \<not> vp < v ! (arg ! j)) (rev [0..<Suc start]) of
        Some j \<Rightarrow> j | None \<Rightarrow> 0)"

text \<open>The partition loop \<open>for (;;)\<close>; the first argument bounds its iterations.\<close>

fun part_loop :: "nat \<Rightarrow> real list \<Rightarrow> real \<Rightarrow> nat list \<Rightarrow> nat \<Rightarrow> nat \<Rightarrow> nat list \<times> nat" where
  "part_loop 0 v vp arg i j = (arg, i)"
| "part_loop (Suc n) v vp arg i j =
     (let i' = scan_up v vp arg (i + 1);
          j' = scan_down v vp arg (j - 1)
      in if i' \<ge> j' then (arg, i') else part_loop n v vp (swap arg i' j') i' j')"

definition median3 :: "real list \<Rightarrow> nat list \<Rightarrow> nat \<Rightarrow> nat \<Rightarrow> nat \<Rightarrow> nat list" where
  "median3 v arg pl pm pr =
     (let a1 = (if v ! (arg ! pm) < v ! (arg ! pl) then swap arg pm pl else arg);
          a2 = (if v ! (a1 ! pr) < v ! (a1 ! pm) then swap a1 pr pm else a1)
      in if v ! (a2 ! pm) < v ! (a2 ! pl) then swap a2 pm pl else a2)"

text \<open>The insertion sort of the range \<open>pl..pr\<close>: it is stable.\<close>

definition insertion_range :: "real list \<Rightarrow> nat list \<Rightarrow> nat \<Rightarrow> nat \<Rightarrow> nat list" where
  "insertion_range v arg pl pr =
     take pl arg @ sort_key (\<lambda>i. v ! i) (take (Suc pr - pl) (drop pl arg)) @ drop (Suc pr) arg"

fun aquicksort :: "nat \<Rightarrow> real list \<Rightarrow> nat list \<Rightarrow> nat \<Rightarrow> nat \<Rightarrow> nat list option" where
  "aquicksort 0 v arg pl pr = None"
| "aquicksort (Suc depth) v arg pl pr =
     (if pr - pl > 16 then
        (let pm = pl + (pr - pl) div 2;
             a = median3 v arg pl pm pr;
             vp = v ! (a ! pm);
             a' = swap a pm (pr - 1);
             (b, i) = part_loop (length arg) v vp a' pl (pr - 1);
             c = swap b i (pr - 1)
         in case aquicksort depth v c pl (i - 1) of
              None \<Rightarrow> None
            | Some d \<Rightarrow> aquicksort depth v d (i + 1) pr)
      else Some (insertion_range v arg pl pr))"

definition np_argsort :: "real list \<Rightarrow> nat list option" where
  "np_argsort v =
     (if v = [] then Some []
      else aquicksort (Suc (2 * nat (bitlen (int (length v)) - 1))) v [0..<length v] 0
             (length v - 1))"






section \<open>Drift detector: \<open>monitoring/drift.py\<close>\<close>

text \<open>
  A table read from CSV is a map from column name to the column's cells. A cell is a
  number, a missing value (\<open>NaN\<close>) or text that does not convert to a float. Numbers are
  modelled as reals; \<open>inf\<close> is not represented.
\<close>

datatype cell = Num real | Missing | NonNumeric string

type_synonym table = "string \<rightharpoonup> cell list"

datatype drift_status = OK | WARN | FAIL

record drift_report =
  psi_by_feature :: "(string \<times> real) list"
  overall_max_psi :: real
  status :: drift_status

text \<open>
  \<open>edges = np.unique(np.quantile(expected, np.linspace(0, 1, buckets + 1)))\<close> is computed by
  NumPy in double arithmetic, where for instance \<open>np.linspace(0, 1, 11)[3]\<close> is
  \<open>0.30000000000000004\<close> and an interpolated edge can differ from its neighbour by one
  rounding error. The edges are therefore a parameter of the model (\<open>edges_of\<close>): the list
  NumPy returns for the given array and number of buckets.
\<close>

text \<open>
  \<open>np.histogram(x, bins=edges)\<close>: bin \<open>i\<close> is \<open>[edges[i], edges[i+1])\<close>, the last bin is closed
  on the right, values outside the edges are not counted.
\<close>

definition np_histogram :: "real list \<Rightarrow> real list \<Rightarrow> nat list" where
  "np_histogram x edges =
     map (\<lambda>i. length (filter (\<lambda>v. edges ! i \<le> v \<and>
                 (if i + 2 = length edges then v \<le> edges ! (i + 1) else v < edges ! (i + 1))) x))
         [0..<length edges - 1]"

text \<open>\<open>np.clip(v, lo, hi)\<close>\<close>

definition np_clip :: "real \<Rightarrow> real \<Rightarrow> real \<Rightarrow> real" where
  "np_clip v lo hi = min (max v lo) hi"

text \<open>The inner function \<open>_bucket_counts\<close>.\<close>

definition bucket_counts :: "real list \<Rightarrow> real list \<Rightarrow> real list" where
  "bucket_counts edges x =
     (let counts = np_histogram x edges
      in map (\<lambda>c. np_clip (real c / real (max (sum_list counts) 1)) (1 / 1000000) 1) counts)"

definition psi :: "(real list \<Rightarrow> nat \<Rightarrow> real list) \<Rightarrow> real list \<Rightarrow> real list \<Rightarrow> nat \<Rightarrow> real" where
  "psi edges_of expected actual buckets =
     (if length expected = 0 \<or> length actual = 0 then 0
      else
        let edges = edges_of expected buckets
        in if length edges < 3 then 0
           else
             let e_pct = bucket_counts edges expected;
                 a_pct = bucket_counts edges actual
             in sum_list (map2 (\<lambda>a e. (a - e) * ln (a / e)) a_pct e_pct))"

text \<open>
  \<open>base[col].dropna().to_numpy(dtype=float)\<close>: the missing cells are dropped; a cell that
  does not convert makes \<open>to_numpy\<close> raise \<open>ValueError\<close>.
\<close>

fun to_float_array :: "cell list \<Rightarrow> error + real list" where
  "to_float_array [] = Inr []"
| "to_float_array (Missing # cs) = to_float_array cs"
| "to_float_array (NonNumeric s # cs) = Inl ValueError"
| "to_float_array (Num v # cs) =
     (case to_float_array cs of Inl e \<Rightarrow> Inl e | Inr vs \<Rightarrow> Inr (v # vs))"

text \<open>
  The loop that fills \<open>psi_by\<close>, over the remaining feature columns; the dictionary is kept
  as the list of its insertions (a column named twice gets the same value twice).
  \<open>_psi\<close> is called with its default \<open>buckets = 10\<close>.
\<close>

fun psi_loop :: "(real list \<Rightarrow> nat \<Rightarrow> real list) \<Rightarrow> table \<Rightarrow> table \<Rightarrow> string list
    \<Rightarrow> error + (string \<times> real) list" where
  "psi_loop edges_of base cur [] = Inr []"
| "psi_loop edges_of base cur (col # cols) =
     (case (base col, cur col) of
        (Some bs, Some cs) \<Rightarrow>
          (case to_float_array bs of
             Inl err \<Rightarrow> Inl err
           | Inr e \<Rightarrow>
               (case to_float_array cs of
                  Inl err \<Rightarrow> Inl err
                | Inr a \<Rightarrow>
                    (case psi_loop edges_of base cur cols of
                       Inl err \<Rightarrow> Inl err
                     | Inr out \<Rightarrow> Inr ((col, psi edges_of e a 10) # out))))
      | _ \<Rightarrow> psi_loop edges_of base cur cols)"

text \<open>\<open>max(psi_by.values(), default=0.0)\<close>\<close>

definition max_default :: "real list \<Rightarrow> real" where
  "max_default vs = (case vs of [] \<Rightarrow> 0 | v # vs' \<Rightarrow> fold max vs' v)"

definition compute_drift :: "(real list \<Rightarrow> nat \<Rightarrow> real list) \<Rightarrow> table \<Rightarrow> table \<Rightarrow> string list
    \<Rightarrow> real \<Rightarrow> real \<Rightarrow> error + drift_report" where
  "compute_drift edges_of base cur feature_cols warn_psi fail_psi =
     (case psi_loop edges_of base cur feature_cols of
        Inl err \<Rightarrow> Inl err
      | Inr psi_by \<Rightarrow>
          let max_psi = max_default (map snd psi_by)
          in Inr \<lparr>psi_by_feature = psi_by,
                  overall_max_psi = max_psi,
                  status = (if max_psi \<ge> fail_psi then FAIL
                            else if max_psi \<ge> warn_psi then WARN
                            else OK)\<rparr>)"

text \<open>The listed columns that both tables have hold numbers and missing values only.\<close>

definition numeric_cells :: "cell list \<Rightarrow> bool" where
  "numeric_cells cs = list_all (\<lambda>c. case c of NonNumeric s \<Rightarrow> False | _ \<Rightarrow> True) cs"

definition numeric_features :: "table \<Rightarrow> string list \<Rightarrow> bool" where
  "numeric_features t cols =
     list_all (\<lambda>col. case t col of None \<Rightarrow> True | Some cs \<Rightarrow> numeric_cells cs) cols"

text \<open>
  The edges without rounding: \<open>np.linspace\<close>, \<open>np.quantile\<close> with linear interpolation and
  \<open>np.unique\<close> over the reals. NumPy returns these where no operation rounds, as for a
  one-element array, whose every quantile is the element.
\<close>

definition linspace01 :: "nat \<Rightarrow> real list" where
  "linspace01 num = map (\<lambda>i. real i / real (num - 1)) [0..<num]"

definition exact_quantile :: "real list \<Rightarrow> real \<Rightarrow> real" where
  "exact_quantile x q =
     (let s = sort x;
          h = q * real (length s - 1);
          lo = nat \<lfloor>h\<rfloor>;
          hi = min (lo + 1) (length s - 1)
      in s ! lo + (h - real lo) * (s ! hi - s ! lo))"

definition exact_edges :: "real list \<Rightarrow> nat \<Rightarrow> real list" where
  "exact_edges expected buckets =
     sort (remdups (map (exact_quantile expected) (linspace01 (buckets + 1))))"

definition sessions_table :: table where
  "sessions_table =
     [''sessions_7d'' \<mapsto> [Num 3, Num 3, Missing, Num 3],
      ''watch_minutes_7d'' \<mapsto> [Num 0, Num 1, Num 1, Num 0],
      ''quiz_avg_score_7d'' \<mapsto> [Missing, Missing, Missing, Missing],
      ''plan'' \<mapsto> [NonNumeric ''free'', NonNumeric ''pro'', Missing, NonNumeric ''free'']]"

section \<open>Properties of the promoter\<close>

lemma train_meta_no_metric_key:
  "key \<in> set metric_keys \<Longrightarrow> train_meta ty f tr te ct ce ms key = None"
  by (auto simp: metric_keys_def train_meta_def)

lemma score_loop_absent:
  "(\<And>key. key \<in> set keys \<Longrightarrow> m key = None) \<Longrightarrow> score_loop keys m = Inr (''unknown'', Finite (- 1))"
  by (induction keys) auto

text \<open>
  C6. For every metrics document written by \<open>train_baseline\<close> or \<open>train_candidate\<close>, whatever
  the evaluation produced, \<open>_score_from_metrics\<close> returns the name \<open>unknown\<close> and the score
  \<open>-1.0\<close>: the recognised keys sit under \<open>metrics\<close>, and only top-level keys are inspected.
\<close>

theorem score_from_train_metrics_unknown:
  "score_from_metrics
     (train_baseline_meta f tr te ct ce (evaluate_result pr roc cm rep smp))
       = Inr (''unknown'', Finite (- 1))
   \<and> score_from_metrics
     (train_candidate_meta f tr te ct ce (evaluate_result pr roc cm rep smp))
       = Inr (''unknown'', Finite (- 1))"
  unfolding score_from_metrics_def train_baseline_meta_def train_candidate_meta_def
  by (simp add: score_loop_absent train_meta_no_metric_key)

subsection \<open>Stable descending sort: the head is the first maximum\<close>







subsection \<open>The scan\<close>



lemma find_loop_none:
  "(\<And>mp. mp \<in> set mps \<Longrightarrow> \<not> has_model fs mp) \<Longrightarrow> find_loop fs mps = Inr []"
  by (induction mps) auto







text \<open>
  C5. When the scan yields no metrics file with a matching artifact, \<open>promote_model\<close> raises
  \<open>FileNotFoundError\<close> (the code's error for "no promotable artifact") and the file system
  it leaves is the one it found: no file, the production alias included, is written.
\<close>

theorem promote_model_no_pairs:
  assumes "filter (has_model fs) (scan fs) = []"
  shows "promote_model sorted_rev fs = (Inl FileNotFoundError, fs)"
proof -
  have "find_candidates fs = Inr []"
    unfolding find_candidates_def using assms
    by (intro find_loop_none) (simp add: filter_empty_conv)
  then show ?thesis by (simp add: promote_model_def)
qed

theorem promote_model_no_pairs_witness:
  "filter (has_model fs_empty_pairs) (scan fs_empty_pairs) = []
   \<and> promote_model sorted_rev_no_nan fs_empty_pairs = (Inl FileNotFoundError, fs_empty_pairs)"
proof -
  have h: "filter (has_model fs_empty_pairs) (scan fs_empty_pairs) = []"
    by (simp add: scan_def fs_empty_pairs_def is_json_def has_model_def stem_def)
  show ?thesis using h promote_model_no_pairs [OF h] by simp
qed

section \<open>Properties of the splitter\<close>

lemma cut_at_bounds:
  assumes "2 \<le> length dates"
  shows "1 \<le> cut_at fl dates ts" and "cut_at fl dates ts \<le> int (length dates) - 1"
  using assms by (auto simp: cut_at_def)

lemma distinct_dates_props:
  "sorted (distinct_dates d)" "distinct (distinct_dates d)"
  "set (distinct_dates d) = (\<lambda>r. date_of (as_of_date r)) ` set d"
  by (simp_all add: distinct_dates_def)

lemma cutoff_date_props:
  assumes "2 \<le> length (distinct_dates d)"
  shows "cutoff_date fl (distinct_dates d) ts \<in> set (distinct_dates d)"
    and "hd (distinct_dates d) \<le> cutoff_date fl (distinct_dates d) ts"
    and "cutoff_date fl (distinct_dates d) ts < last (distinct_dates d)"
proof -
  let ?ds = "distinct_dates d"
  let ?i = "nat (cut_at fl ?ds ts - 1)"
  have i: "?i < length ?ds - 1"
    using cut_at_bounds[OF assms, of fl ts] by linarith
  then have il: "?i < length ?ds" by simp
  show "cutoff_date fl ?ds ts \<in> set ?ds"
    unfolding cutoff_date_def using il by simp
  have ne: "?ds \<noteq> []" using assms by auto
  have "?ds ! 0 \<le> ?ds ! ?i"
    by (rule sorted_nth_mono[OF distinct_dates_props(1) _ il]) simp
  then show "hd ?ds \<le> cutoff_date fl ?ds ts"
    unfolding cutoff_date_def using ne by (simp add: hd_conv_nth)
  have "?ds ! ?i \<le> ?ds ! (length ?ds - 1)"
    by (rule sorted_nth_mono[OF distinct_dates_props(1)]) (use i in simp_all)
  moreover have "?ds ! ?i \<noteq> ?ds ! (length ?ds - 1)"
    using i il distinct_dates_props(2)[of d] by (simp add: nth_eq_iff_index_eq)
  ultimately have "?ds ! ?i < ?ds ! (length ?ds - 1)" by simp
  then show "cutoff_date fl ?ds ts < last ?ds"
    unfolding cutoff_date_def using ne by (simp add: last_conv_nth)
qed

lemma filter_partition_mset:
  "mset (filter (\<lambda>r. f r \<le> (c::int)) xs) + mset (filter (\<lambda>r. f r > c) xs) = mset xs"
  by (induction xs) auto

text \<open>
  C1. For every frame with an \<open>as_of_date\<close> column and at least five distinct parseable
  calendar days, and for every \<open>test_size\<close>, \<open>_time_split\<close> returns a split: the cutoff is
  one of the days, every train row is dated on or before it, every evaluation row strictly
  after it (so each train date is before each evaluation date), no row is in both
  subsets, and together they are exactly the rows with a parseable date.
\<close>

theorem time_split_temporal_order:
  assumes col: "''as_of_date'' \<in> set (columns df)"
    and five: "5 \<le> length (distinct_dates (parsed_rows to_datetime df))"
  shows "\<exists>train test.
      time_split to_datetime sort_values fl df test_size = Inr (train, test)
    \<and> cutoff_date fl (distinct_dates (parsed_rows to_datetime df)) test_size
          \<in> set (distinct_dates (parsed_rows to_datetime df))
    \<and> (\<forall>r \<in> set train. date_of (as_of_date r)
          \<le> cutoff_date fl (distinct_dates (parsed_rows to_datetime df)) test_size)
    \<and> (\<forall>r \<in> set test. cutoff_date fl (distinct_dates (parsed_rows to_datetime df)) test_size
          < date_of (as_of_date r))
    \<and> (\<forall>a \<in> set train. \<forall>b \<in> set test. date_of (as_of_date a) < date_of (as_of_date b))
    \<and> set train \<inter> set test = {}
    \<and> mset train + mset test = mset (parsed_rows to_datetime df)"
proof -
  define d where "d = parsed_rows to_datetime df"
  define c where "c = cutoff_date fl (distinct_dates d) test_size"
  define train where "train = filter (\<lambda>r. date_of (as_of_date r) \<le> c) d"
  define test where "test = filter (\<lambda>r. date_of (as_of_date r) > c) d"
  have ts: "time_split to_datetime sort_values fl df test_size = Inr (train, test)"
    using col five
    by (simp add: time_split_def Let_def train_def test_def c_def d_def parsed_rows_def)
  have cin: "c \<in> set (distinct_dates d)"
    unfolding c_def using five by (intro cutoff_date_props(1)) (simp add: d_def)
  have tr: "\<forall>r \<in> set train. date_of (as_of_date r) \<le> c" by (simp add: train_def)
  have te: "\<forall>r \<in> set test. c < date_of (as_of_date r)" by (simp add: test_def)
  have ord: "\<forall>a \<in> set train. \<forall>b \<in> set test. date_of (as_of_date a) < date_of (as_of_date b)"
    using tr te by fastforce
  have dis: "set train \<inter> set test = {}" using ord by fastforce
  have part: "mset train + mset test = mset d"
    unfolding train_def test_def by (rule filter_partition_mset)
  show ?thesis
    using ts cin tr te ord dis part unfolding c_def d_def by blast
qed

theorem time_split_temporal_order_witness:
  "''as_of_date'' \<in> set (columns six_day_frame)
   \<and> 5 \<le> length (distinct_dates (parsed_rows iso_column six_day_frame))
   \<and> (\<exists>train test.
      time_split iso_column sort_key exact_product six_day_frame (1 / 4) = Inr (train, test)
    \<and> cutoff_date exact_product (distinct_dates (parsed_rows iso_column six_day_frame)) (1 / 4)
          \<in> set (distinct_dates (parsed_rows iso_column six_day_frame))
    \<and> (\<forall>r \<in> set train. date_of (as_of_date r)
          \<le> cutoff_date exact_product (distinct_dates (parsed_rows iso_column six_day_frame)) (1 / 4))
    \<and> (\<forall>r \<in> set test. cutoff_date exact_product (distinct_dates (parsed_rows iso_column six_day_frame)) (1 / 4)
          < date_of (as_of_date r))
    \<and> (\<forall>a \<in> set train. \<forall>b \<in> set test. date_of (as_of_date a) < date_of (as_of_date b))
    \<and> set train \<inter> set test = {}
    \<and> mset train + mset test = mset (parsed_rows iso_column six_day_frame))"
proof -
  have h1: "''as_of_date'' \<in> set (columns six_day_frame)"
    by (simp add: six_day_frame_def)
  have "distinct_dates (parsed_rows iso_column six_day_frame)
      = [19723, 19724, 19725, 19726, 19727, 19728]"
    by (simp add: distinct_dates_def parsed_rows_def six_day_frame_def iso_table_def iso_column_def coerce_def
        dropna_def List.map_filter_simps date_of_def ns_per_day_def)
  then have h2: "5 \<le> length (distinct_dates (parsed_rows iso_column six_day_frame))"
    by simp
  from h1 h2 time_split_temporal_order [OF h1 h2, of sort_key exact_product "1 / 4"]
  show ?thesis by blast
qed


lemma sorts_ascending_sort_key: "sorts_ascending sort_key"
  by (simp add: sorts_ascending_def)

lemma sorts_ascending_length: "sorts_ascending sv \<Longrightarrow> length (sv k xs) = length xs"
  unfolding sorts_ascending_def by (metis size_mset)

lemma distinct_dates_length: "length (distinct_dates d) \<le> length d"
proof -
  have "length (distinct_dates d) = length (remdups (map (\<lambda>r. date_of (as_of_date r)) d))"
    by (simp add: distinct_dates_def)
  also have "\<dots> \<le> length (map (\<lambda>r. date_of (as_of_date r)) d)" by (rule length_remdups_leq)
  finally show ?thesis by simp
qed

lemma py_int_nonneg: "0 \<le> x \<Longrightarrow> 0 \<le> py_int x"
  by (simp add: py_int_def)

lemma double_product_exact: "double_product exact_product"
proof -
  have "of_nat n * (1 - ts) \<le> (of_nat n :: rat)" if "0 < ts" for n and ts :: rat
  proof -
    have "of_nat n * (1 - ts) \<le> (of_nat n :: rat) * 1"
      by (rule mult_left_mono) (use that in simp_all)
    then show ?thesis by simp
  qed
  then show ?thesis by (auto simp: double_product_def exact_product_def)
qed

lemma cutoff_idx_range:
  assumes "double_product fl" "0 < ts" "ts < 1"
  shows "0 \<le> cutoff_idx fl d ts" and "cutoff_idx fl d ts \<le> int (length d)"
proof -
  have x: "0 \<le> fl (length d) ts" "fl (length d) ts \<le> of_nat (length d)"
    using assms unfolding double_product_def by blast+
  show "0 \<le> cutoff_idx fl d ts" using x(1) by (simp add: cutoff_idx_def py_int_nonneg)
  have "\<lfloor>fl (length d) ts\<rfloor> \<le> int (length d)"
    using x(2) by (simp add: floor_le_iff)
  then show "cutoff_idx fl d ts \<le> int (length d)" using x(1) by (simp add: cutoff_idx_def py_int_def)
qed

text \<open>
  C7, as the code has it. With an \<open>as_of_date\<close> column, at least two distinct parseable
  days and \<open>0 < test_size < 1\<close>, \<open>_time_split\<close> returns a split. With five or more distinct
  days both subsets are non-empty. With fewer than five (the positional path) the train
  subset is non-empty exactly when the index \<open>int(rows * (1 - test_size))\<close> the code
  computes, in double arithmetic, is at least \<open>1\<close>, and the evaluation subset exactly when
  that index is below the number of rows; neither is guaranteed.
\<close>

theorem time_split_nonempty:
  assumes col: "''as_of_date'' \<in> set (columns df)"
    and srt: "sorts_ascending sort_values"
    and dbl: "double_product fl"
    and two: "2 \<le> length (distinct_dates (parsed_rows to_datetime df))"
    and ts0: "0 < test_size" and ts1: "test_size < 1"
  shows "\<exists>train test.
      time_split to_datetime sort_values fl df test_size = Inr (train, test)
    \<and> (5 \<le> length (distinct_dates (parsed_rows to_datetime df)) \<longrightarrow> train \<noteq> [] \<and> test \<noteq> [])
    \<and> (length (distinct_dates (parsed_rows to_datetime df)) < 5 \<longrightarrow>
          (train \<noteq> [] \<longleftrightarrow> 1 \<le> cutoff_idx fl (parsed_rows to_datetime df) test_size)
        \<and> (test \<noteq> [] \<longleftrightarrow> cutoff_idx fl (parsed_rows to_datetime df) test_size
               < int (length (parsed_rows to_datetime df))))"
proof (cases "length (distinct_dates (parsed_rows to_datetime df)) < 5")
  case False
  define d where "d = parsed_rows to_datetime df"
  define c where "c = cutoff_date fl (distinct_dates d) test_size"
  have two': "2 \<le> length (distinct_dates d)" using two by (simp add: d_def)
  have ne: "distinct_dates d \<noteq> []" using two' by auto
  have ts: "time_split to_datetime sort_values fl df test_size =
      Inr (filter (\<lambda>r. date_of (as_of_date r) \<le> c) d, filter (\<lambda>r. date_of (as_of_date r) > c) d)"
    using col False
    by (simp add: time_split_def Let_def c_def d_def parsed_rows_def)
  have "hd (distinct_dates d) \<in> set (distinct_dates d)" using ne by simp
  then obtain r1 where r1: "r1 \<in> set d" "date_of (as_of_date r1) = hd (distinct_dates d)"
    unfolding distinct_dates_props(3) by auto
  have "last (distinct_dates d) \<in> set (distinct_dates d)" using ne by simp
  then obtain r2 where r2: "r2 \<in> set d" "date_of (as_of_date r2) = last (distinct_dates d)"
    unfolding distinct_dates_props(3) by auto
  have "r1 \<in> set (filter (\<lambda>r. date_of (as_of_date r) \<le> c) d)"
    using r1 cutoff_date_props(2)[OF two', of fl test_size] by (simp add: c_def)
  then have tr: "filter (\<lambda>r. date_of (as_of_date r) \<le> c) d \<noteq> []" by force
  have "r2 \<in> set (filter (\<lambda>r. date_of (as_of_date r) > c) d)"
    using r2 cutoff_date_props(3)[OF two', of fl test_size] by (simp add: c_def)
  then have te: "filter (\<lambda>r. date_of (as_of_date r) > c) d \<noteq> []" by force
  show ?thesis using ts tr te False by simp
next
  case True
  define d where "d = parsed_rows to_datetime df"
  define d' where "d' = sort_values as_of_date d"
  define k where "k = cutoff_idx fl d test_size"
  have len: "length d' = length d" unfolding d'_def by (rule sorts_ascending_length[OF srt])
  have kk: "cutoff_idx fl d' test_size = k" by (simp add: cutoff_idx_def k_def len)
  have dne: "d \<noteq> []" using two distinct_dates_length[of d] by (auto simp: d_def)
  have k0: "0 \<le> k" unfolding k_def by (rule cutoff_idx_range(1)[OF dbl ts0 ts1])
  have ts: "time_split to_datetime sort_values fl df test_size = Inr (take (nat k) d', drop (nat k) d')"
    using col True k0 kk
    by (simp add: time_split_def Let_def d_def d'_def parsed_rows_def slice_to_def slice_from_def)
  have tr: "take (nat k) d' \<noteq> [] \<longleftrightarrow> 1 \<le> k" using dne len k0 by (auto simp: take_eq_Nil)
  have te: "drop (nat k) d' \<noteq> [] \<longleftrightarrow> k < int (length d)" using len k0 by auto
  show ?thesis using ts tr te True unfolding k_def d_def by simp
qed

theorem time_split_nonempty_witness:
  "''as_of_date'' \<in> set (columns two_day_frame)
   \<and> sorts_ascending (sort_key :: ((timestamp, nat) row \<Rightarrow> timestamp) \<Rightarrow> _)
   \<and> double_product exact_product
   \<and> 2 \<le> length (distinct_dates (parsed_rows iso_column two_day_frame))
   \<and> (0::rat) < 1 / 2 \<and> (1 / 2 :: rat) < 1
   \<and> (\<exists>train test.
      time_split iso_column sort_key exact_product two_day_frame (1 / 2) = Inr (train, test)
    \<and> (5 \<le> length (distinct_dates (parsed_rows iso_column two_day_frame)) \<longrightarrow>
          train \<noteq> [] \<and> test \<noteq> [])
    \<and> (length (distinct_dates (parsed_rows iso_column two_day_frame)) < 5 \<longrightarrow>
          (train \<noteq> [] \<longleftrightarrow> 1 \<le> cutoff_idx exact_product (parsed_rows iso_column two_day_frame) (1 / 2))
        \<and> (test \<noteq> [] \<longleftrightarrow> cutoff_idx exact_product (parsed_rows iso_column two_day_frame) (1 / 2)
               < int (length (parsed_rows iso_column two_day_frame)))))"
proof -
  have h1: "''as_of_date'' \<in> set (columns two_day_frame)"
    by (simp add: two_day_frame_def)
  have h2: "sorts_ascending (sort_key :: ((timestamp, nat) row \<Rightarrow> timestamp) \<Rightarrow> _)"
    by (rule sorts_ascending_sort_key)
  have "distinct_dates (parsed_rows iso_column two_day_frame) = [19723, 19724]"
    by (simp add: distinct_dates_def parsed_rows_def two_day_frame_def iso_table_def iso_column_def coerce_def
        dropna_def List.map_filter_simps date_of_def ns_per_day_def)
  then have h3: "2 \<le> length (distinct_dates (parsed_rows iso_column two_day_frame))"
    by simp
  have h4: "(0::rat) < 1 / 2" and h5: "(1 / 2 :: rat) < 1" by simp_all
  note h0 = double_product_exact
  from h0 h1 h2 h3 h4 h5 time_split_nonempty [OF h1 h2 h0 h3 h4 h5]
  show ?thesis by blast
qed

text \<open>
  C7 as stated fails on the positional path: two rows on two different days and
  \<open>test_size = 0.75\<close> give \<open>int(2 * 0.25) = 0\<close>, so the train subset is empty.
\<close>

theorem time_split_nonempty_counterexample:
  "''as_of_date'' \<in> set (columns two_day_frame)
   \<and> length (distinct_dates (parsed_rows iso_column two_day_frame)) = 2
   \<and> (0::rat) < 3 / 4 \<and> (3 / 4 :: rat) < 1
   \<and> time_split iso_column sort_key exact_product two_day_frame (3 / 4) =
       Inr ([], [\<lparr>as_of_date = 19723 * ns_per_day, rest = 1\<rparr>,
                 \<lparr>as_of_date = 19724 * ns_per_day, rest = 2\<rparr>])"
  by (simp add: time_split_def distinct_dates_def parsed_rows_def two_day_frame_def iso_table_def iso_column_def
      coerce_def dropna_def List.map_filter_simps date_of_def ns_per_day_def cutoff_idx_def
      py_int_def slice_to_def slice_from_def exact_product_def)

section \<open>Properties of the batch scorer\<close>

lemma mono_date_of: "mono date_of"
  by (auto simp: mono_def date_of_def ns_per_day_def intro: zdiv_mono1)

lemma series_max_Max:
  "ts \<noteq> [] \<Longrightarrow> series_max ts = Some (Max (set (map date_of ts)))"
proof -
  assume ne: "ts \<noteq> []"
  then obtain t ts' where ts: "ts = t # ts'" by (cases ts) auto
  have "date_of (fold max ts' t) = date_of (Max (set ts))"
    unfolding ts by (simp only: Max.set_eq_fold)
  also have "\<dots> = Max (date_of ` set ts)"
    using ne by (intro mono_Max_commute[OF mono_date_of]) auto
  finally show ?thesis by (simp add: series_max_def ts)
qed

lemma series_min_Min:
  "ts \<noteq> [] \<Longrightarrow> series_min ts = Some (Min (set (map date_of ts)))"
proof -
  assume ne: "ts \<noteq> []"
  then obtain t ts' where ts: "ts = t # ts'" by (cases ts) auto
  have "date_of (fold min ts' t) = date_of (Min (set ts))"
    unfolding ts by (simp only: Min.set_eq_fold)
  also have "\<dots> = Min (date_of ` set ts)"
    using ne by (intro mono_Min_commute[OF mono_date_of]) auto
  finally show ?thesis by (simp add: series_min_def ts)
qed

text \<open>
  C8, as the code has it. On a pool with an \<open>as_of_date\<close> column: when the request is
  omitted (\<open>None\<close> or the empty string) and some date parses, the result is the greatest
  parsed date of the pool; when the request is explicit and parses, the result is its date
  if that is one of the pool's parsed dates, and otherwise the \<open>ValueError\<close> whose message
  quotes the pool's least and greatest dates (\<open>NaT\<close> for both when no date of the pool
  parses); when the request is explicit and does not parse, the parser's own error is
  raised, which names no range.
\<close>

theorem pick_as_of_date_resolution:
  assumes col: "''as_of_date'' \<in> set (columns df)"
  shows "(\<not> truthy requested \<and> pool_dates to_datetime df \<noteq> [] \<longrightarrow>
            pick_as_of_date to_datetime to_datetime_scalar df requested
              = Inr (Some (Max (set (pool_dates to_datetime df)))))
    \<and> (requested = Some s \<and> s \<noteq> [] \<and> to_datetime_scalar s = Some t
          \<and> date_of t \<in> set (pool_dates to_datetime df) \<longrightarrow>
            pick_as_of_date to_datetime to_datetime_scalar df requested = Inr (Some (date_of t)))
    \<and> (requested = Some s \<and> s \<noteq> [] \<and> to_datetime_scalar s = Some t
          \<and> date_of t \<notin> set (pool_dates to_datetime df) \<and> pool_dates to_datetime df \<noteq> [] \<longrightarrow>
            pick_as_of_date to_datetime to_datetime_scalar df requested
              = Inl (DateNotFound s (Some (Min (set (pool_dates to_datetime df))))
                                    (Some (Max (set (pool_dates to_datetime df))))))
    \<and> (requested = Some s \<and> s \<noteq> [] \<and> to_datetime_scalar s = Some t
          \<and> pool_dates to_datetime df = [] \<longrightarrow>
            pick_as_of_date to_datetime to_datetime_scalar df requested = Inl (DateNotFound s None None))
    \<and> (requested = Some s \<and> s \<noteq> [] \<and> to_datetime_scalar s = None \<longrightarrow>
            pick_as_of_date to_datetime to_datetime_scalar df requested = Inl DateParseError)"
proof -
  let ?ts = "pool_timestamps to_datetime df"
  have mx: "pool_dates to_datetime df \<noteq> [] \<Longrightarrow>
      series_max ?ts = Some (Max (set (pool_dates to_datetime df)))"
    using series_max_Max[of ?ts] by (simp add: pool_dates_def)
  have mn: "pool_dates to_datetime df \<noteq> [] \<Longrightarrow>
      series_min ?ts = Some (Min (set (pool_dates to_datetime df)))"
    using series_min_Min[of ?ts] by (simp add: pool_dates_def)
  have em: "pool_dates to_datetime df = [] \<Longrightarrow> series_min ?ts = None \<and> series_max ?ts = None"
    by (simp add: pool_dates_def series_min_def series_max_def)
  show ?thesis
    using col mx mn em by (auto simp: pick_as_of_date_def)
qed

theorem pick_as_of_date_resolution_witness:
  "''as_of_date'' \<in> set (columns quarter_pool)
   \<and> pick_as_of_date iso_column iso_table quarter_pool None = Inr (Some 20513)
   \<and> pick_as_of_date iso_column iso_table quarter_pool (Some ''2026-02-01'') = Inr (Some 20485)
   \<and> pick_as_of_date iso_column iso_table quarter_pool (Some ''2024-01-01'')
        = Inl (DateNotFound ''2024-01-01'' (Some 20454) (Some 20513))"
proof -
  have col: "''as_of_date'' \<in> set (columns quarter_pool)"
    by (simp add: quarter_pool_def)
  have pd: "pool_dates iso_column quarter_pool = [20485, 20513, 20454, 20513]"
    by (simp add: quarter_pool_def iso_table_def iso_column_def pool_dates_def pool_timestamps_def coerce_def
        List.map_filter_simps date_of_def ns_per_day_def)
  have feb: "iso_table ''2026-02-01'' = Some (20485 * ns_per_day)"
    and old: "iso_table ''2024-01-01'' = Some (19723 * ns_per_day)"
    by (simp_all add: iso_table_def)
  have d: "date_of (20485 * ns_per_day) = 20485" "date_of (19723 * ns_per_day) = 19723"
    by (simp_all add: date_of_def ns_per_day_def)
  have a: "pick_as_of_date iso_column iso_table quarter_pool None = Inr (Some 20513)"
    using pick_as_of_date_resolution [OF col, of None iso_column iso_table] by (simp add: pd)
  have b: "pick_as_of_date iso_column iso_table quarter_pool (Some ''2026-02-01'') = Inr (Some 20485)"
    using pick_as_of_date_resolution
      [OF col, of "Some ''2026-02-01''" iso_column iso_table "''2026-02-01''"
        "20485 * ns_per_day"]
    by (simp add: pd feb d)
  have c: "pick_as_of_date iso_column iso_table quarter_pool (Some ''2024-01-01'')
        = Inl (DateNotFound ''2024-01-01'' (Some 20454) (Some 20513))"
    using pick_as_of_date_resolution
      [OF col, of "Some ''2024-01-01''" iso_column iso_table "''2024-01-01''"
        "19723 * ns_per_day"]
    by (simp add: pd old d)
  show ?thesis using col a b c by simp
qed

text \<open>
  C8 as stated fails for an explicit request that does not parse: the error is the
  parser's, not the not-found error with the pool's range.
\<close>

theorem pick_as_of_date_unparseable_counterexample:
  "''as_of_date'' \<in> set (columns quarter_pool)
   \<and> truthy (Some ''garbled'')
   \<and> pick_as_of_date iso_column iso_table quarter_pool (Some ''garbled'') = Inl DateParseError"
  by (simp add: pick_as_of_date_def quarter_pool_def iso_table_def)
















lemma np_argsort_tied:
  "np_argsort (replicate 18 (1 / 2))
     = Some [0, 15, 14, 13, 12, 11, 10, 9, 8, 7, 6, 5, 4, 3, 2, 1, 16, 17]"
  by code_simp


section \<open>Properties of the drift detector\<close>

lemma psi_term_nonneg:
  fixes a e :: real
  assumes "0 < a" "0 < e"
  shows "0 \<le> (a - e) * ln (a / e)"
proof (cases "e \<le> a")
  case True
  then have "1 \<le> a / e" using assms by simp
  then have "0 \<le> ln (a / e)" by simp
  moreover have "0 \<le> a - e" using True by simp
  ultimately show ?thesis by simp
next
  case False
  then have "a / e \<le> 1" "0 < a / e" using assms by simp_all
  then have "ln (a / e) \<le> 0" by simp
  moreover have "a - e \<le> 0" using False by simp
  ultimately show ?thesis by (simp add: mult_nonpos_nonpos)
qed

lemma bucket_counts_pos: "v \<in> set (bucket_counts edges x) \<Longrightarrow> 0 < v"
  by (auto simp: bucket_counts_def Let_def np_clip_def)

lemma sum_list_map_nonneg:
  "(\<And>p. p \<in> set ps \<Longrightarrow> (0::real) \<le> g p) \<Longrightarrow> 0 \<le> sum_list (map g ps)"
  by (induction ps) auto

lemma sum_list_map2_nonneg:
  "(\<And>a e. a \<in> set as \<Longrightarrow> e \<in> set es \<Longrightarrow> (0::real) \<le> f a e) \<Longrightarrow> 0 \<le> sum_list (map2 f as es)"
  by (rule sum_list_map_nonneg) (auto dest: set_zip_leftD set_zip_rightD)

lemma sum_list_map2_same:
  "(\<And>a. f a a = (0::real)) \<Longrightarrow> sum_list (map2 f xs xs) = 0"
  by (induction xs) auto

text \<open>
  C10. The value \<open>_psi\<close> returns is non-negative, for every pair of arrays (non-empty or
  not), every number of buckets and whatever edges NumPy computes: each clipped fraction
  is positive, and \<open>(a - e) * ln (a / e)\<close> is non-negative for positive \<open>a\<close> and \<open>e\<close>.
\<close>

theorem psi_nonneg: "0 \<le> psi edges_of expected actual buckets"
  unfolding psi_def Let_def
  by (auto intro!: sum_list_map2_nonneg psi_term_nonneg bucket_counts_pos)

lemma psi_same: "psi edges_of x x buckets = 0"
  unfolding psi_def Let_def by (simp add: sum_list_map2_same)

lemma to_float_array_numeric:
  "numeric_cells cs \<Longrightarrow> \<exists>vs. to_float_array cs = Inr vs"
proof (induction cs)
  case Nil
  then show ?case by simp
next
  case (Cons c cs)
  then show ?case by (cases c) (auto simp: numeric_cells_def)
qed

lemma psi_loop_same:
  "numeric_features X cols \<Longrightarrow>
     \<exists>pb. psi_loop edges_of X X cols = Inr pb
        \<and> (\<forall>p \<in> set pb. snd p = 0)
        \<and> map fst pb = filter (\<lambda>c. X c \<noteq> None) cols"
proof (induction cols)
  case Nil
  then show ?case by simp
next
  case (Cons col cols)
  then have nf: "numeric_features X cols" by (simp add: numeric_features_def)
  from Cons.IH[OF nf] obtain pb where
    pb: "psi_loop edges_of X X cols = Inr pb" "\<forall>p \<in> set pb. snd p = 0"
      "map fst pb = filter (\<lambda>c. X c \<noteq> None) cols"
    by blast
  show ?case
  proof (cases "X col")
    case None
    then show ?thesis using pb by simp
  next
    case (Some cs)
    then have "numeric_cells cs" using Cons.prems by (simp add: numeric_features_def)
    then obtain vs where vs: "to_float_array cs = Inr vs"
      using to_float_array_numeric by blast
    show ?thesis using Some vs pb by (simp add: psi_same)
  qed
qed

lemma max_default_zero: "(\<And>v. v \<in> set vs \<Longrightarrow> v = 0) \<Longrightarrow> max_default vs = 0"
proof -
  assume z: "\<And>v. v \<in> set vs \<Longrightarrow> v = 0"
  show ?thesis
  proof (cases vs)
    case Nil then show ?thesis by (simp add: max_default_def)
  next
    case (Cons v vs')
    have "fold max vs' v = Max (set (v # vs'))" by (simp only: Max.set_eq_fold)
    also have "set (v # vs') = {0}" using z Cons by auto
    finally show ?thesis by (simp add: max_default_def Cons)
  qed
qed

lemma psi_loop_lookup:
  assumes "numeric_features base cols" "numeric_features cur cols"
    and "col \<in> set cols" "base col = Some bs" "cur col = Some cs"
    and "to_float_array bs = Inr e" "to_float_array cs = Inr a"
  shows "\<exists>pb. psi_loop edges_of base cur cols = Inr pb
           \<and> map_of pb col = Some (psi edges_of e a 10)"
  using assms
proof (induction cols)
  case Nil
  then show ?case by simp
next
  case (Cons c cols)
  have nb: "numeric_features base cols" and nc: "numeric_features cur cols"
    using Cons.prems(1,2) by (simp_all add: numeric_features_def)
  have tail: "\<exists>pb. psi_loop edges_of base cur cols = Inr pb
        \<and> (col \<in> set cols \<longrightarrow> map_of pb col = Some (psi edges_of e a 10))"
  proof (cases "col \<in> set cols")
    case True
    from Cons.IH[OF nb nc True Cons.prems(4-7)] show ?thesis by blast
  next
    case False
    have "\<exists>pb. psi_loop edges_of base cur cols = Inr pb" using nb nc
    proof (induction cols)
      case Nil
      then show ?case by simp
    next
      case (Cons x xs)
      then obtain pb where pb: "psi_loop edges_of base cur xs = Inr pb"
        by (auto simp: numeric_features_def)
      show ?case
      proof (cases "base x")
        case None
        then show ?thesis using pb by simp
      next
        case (Some bx)
        note sb = this
        show ?thesis
        proof (cases "cur x")
          case None
          then show ?thesis using pb sb by simp
        next
          case (Some cx)
          have "numeric_cells bx" "numeric_cells cx"
            using Cons.prems sb Some by (simp_all add: numeric_features_def)
          then obtain vb vc where "to_float_array bx = Inr vb" "to_float_array cx = Inr vc"
            using to_float_array_numeric by blast
          then show ?thesis using pb sb Some by simp
        qed
      qed
    qed
    then show ?thesis using False by blast
  qed
  then obtain pb where pb: "psi_loop edges_of base cur cols = Inr pb"
    "col \<in> set cols \<longrightarrow> map_of pb col = Some (psi edges_of e a 10)" by blast
  show ?case
  proof (cases "c = col")
    case True
    then show ?thesis using pb Cons.prems(4-7) by simp
  next
    case False
    then have inn: "col \<in> set cols" using Cons.prems(3) by simp
    show ?thesis
    proof (cases "base c")
      case None
      then show ?thesis using pb inn by simp
    next
      case (Some bx)
      note sb = this
      show ?thesis
      proof (cases "cur c")
        case None
        then show ?thesis using pb inn sb by simp
      next
        case (Some cx)
        have "numeric_cells bx" "numeric_cells cx"
          using Cons.prems(1,2) sb Some by (simp_all add: numeric_features_def)
        then obtain vb vc where "to_float_array bx = Inr vb" "to_float_array cx = Inr vc"
          using to_float_array_numeric by blast
        then show ?thesis using pb inn sb Some False by simp
      qed
    qed
  qed
qed

text \<open>
  C4. With baseline and current the same table, listed columns that hold numbers, and
  positive thresholds (the defaults are \<open>0.1\<close> and \<open>0.25\<close>), \<open>compute_drift\<close> returns a report
  with PSI \<open>0\<close> for every evaluated feature (the listed columns the table has), overall
  maximum \<open>0\<close> and status \<open>OK\<close>, whatever edges NumPy computes.
\<close>

theorem compute_drift_same:
  assumes "0 < warn_psi" "0 < fail_psi" and num: "numeric_features X feature_cols"
  shows "\<exists>report. compute_drift edges_of X X feature_cols warn_psi fail_psi = Inr report
    \<and> (\<forall>(col, v) \<in> set (psi_by_feature report). v = 0)
    \<and> map fst (psi_by_feature report) = filter (\<lambda>c. X c \<noteq> None) feature_cols
    \<and> overall_max_psi report = 0
    \<and> status report = OK"
proof -
  from psi_loop_same[OF num, of edges_of] obtain pb where
    pb: "psi_loop edges_of X X feature_cols = Inr pb" "\<forall>p \<in> set pb. snd p = 0"
      "map fst pb = filter (\<lambda>c. X c \<noteq> None) feature_cols"
    by blast
  have z: "\<And>v. v \<in> set (map snd pb) \<Longrightarrow> v = 0"
    using pb(2) by auto
  have m: "max_default (map snd pb) = 0"
    by (rule max_default_zero[OF z])
  show ?thesis
    using assms(1,2) m pb by (auto simp: compute_drift_def Let_def)
qed

theorem compute_drift_same_witness:
  "(0::real) < 1 / 10 \<and> (0::real) < 1 / 4
   \<and> numeric_features sessions_table
        [''sessions_7d'', ''watch_minutes_7d'', ''sessions_30d'', ''quiz_avg_score_7d'']
   \<and> (\<exists>report. compute_drift exact_edges sessions_table sessions_table
          [''sessions_7d'', ''watch_minutes_7d'', ''sessions_30d'', ''quiz_avg_score_7d'']
          (1 / 10) (1 / 4) = Inr report
        \<and> list_all (\<lambda>p. snd p = 0) (psi_by_feature report)
        \<and> map fst (psi_by_feature report)
            = [''sessions_7d'', ''watch_minutes_7d'', ''quiz_avg_score_7d'']
        \<and> overall_max_psi report = 0
        \<and> status report = OK)"
proof -
  have h1: "(0::real) < 1 / 10" and h2: "(0::real) < 1 / 4" by simp_all
  have h3: "numeric_features sessions_table
        [''sessions_7d'', ''watch_minutes_7d'', ''sessions_30d'', ''quiz_avg_score_7d'']"
    by (simp add: numeric_features_def numeric_cells_def sessions_table_def)
  have k: "filter (\<lambda>c. sessions_table c \<noteq> None)
        [''sessions_7d'', ''watch_minutes_7d'', ''sessions_30d'', ''quiz_avg_score_7d'']
      = [''sessions_7d'', ''watch_minutes_7d'', ''quiz_avg_score_7d'']"
    by (simp add: sessions_table_def)
  from compute_drift_same [OF h1 h2 h3, of exact_edges] obtain report where
    r: "compute_drift exact_edges sessions_table sessions_table
          [''sessions_7d'', ''watch_minutes_7d'', ''sessions_30d'', ''quiz_avg_score_7d'']
          (1 / 10) (1 / 4) = Inr report"
      "\<forall>(col, v) \<in> set (psi_by_feature report). v = 0"
      "map fst (psi_by_feature report) = filter (\<lambda>c. sessions_table c \<noteq> None)
        [''sessions_7d'', ''watch_minutes_7d'', ''sessions_30d'', ''quiz_avg_score_7d'']"
      "overall_max_psi report = 0" "status report = OK"
    by blast
  have z: "list_all (\<lambda>p. snd p = 0) (psi_by_feature report)"
    unfolding list_all_iff using r(2) by fastforce
  have "\<exists>report. compute_drift exact_edges sessions_table sessions_table
          [''sessions_7d'', ''watch_minutes_7d'', ''sessions_30d'', ''quiz_avg_score_7d'']
          (1 / 10) (1 / 4) = Inr report
        \<and> list_all (\<lambda>p. snd p = 0) (psi_by_feature report)
        \<and> map fst (psi_by_feature report)
            = [''sessions_7d'', ''watch_minutes_7d'', ''quiz_avg_score_7d'']
        \<and> overall_max_psi report = 0
        \<and> status report = OK"
    by (rule exI[of _ report]) (simp add: r(1,4,5) z r(3)[unfolded k])
  then show ?thesis using h1 h2 h3 by simp
qed

text \<open>
  C9. If either array is empty, or fewer than three distinct edges survive the
  deduplication of the baseline's quantile edges as NumPy computes them, \<open>_psi\<close> returns
  exactly \<open>0\<close>. And when the listed columns hold numbers, \<open>compute_drift\<close> returns a report,
  in which a feature whose arrays are degenerate in this way has PSI \<open>0\<close>.
\<close>

theorem psi_degenerate_zero:
  assumes "expected = [] \<or> actual = [] \<or> length (edges_of expected buckets) < 3"
  shows "psi edges_of expected actual buckets = 0
    \<and> (buckets = 10 \<and> numeric_features base feature_cols \<and> numeric_features cur feature_cols
          \<and> col \<in> set feature_cols \<and> base col = Some bs \<and> cur col = Some cs
          \<and> to_float_array bs = Inr expected \<and> to_float_array cs = Inr actual \<longrightarrow>
        (\<exists>report. compute_drift edges_of base cur feature_cols warn_psi fail_psi = Inr report
            \<and> map_of (psi_by_feature report) col = Some 0))"
proof -
  have z: "psi edges_of expected actual buckets = 0"
    using assms by (auto simp: psi_def Let_def)
  have "\<exists>report. compute_drift edges_of base cur feature_cols warn_psi fail_psi = Inr report
            \<and> map_of (psi_by_feature report) col = Some 0"
    if "buckets = 10" "numeric_features base feature_cols" "numeric_features cur feature_cols"
      "col \<in> set feature_cols" "base col = Some bs" "cur col = Some cs"
      "to_float_array bs = Inr expected" "to_float_array cs = Inr actual"
  proof -
    from psi_loop_lookup[OF that(2-8), of edges_of] obtain pb where
      "psi_loop edges_of base cur feature_cols = Inr pb"
      "map_of pb col = Some (psi edges_of expected actual 10)" by blast
    then show ?thesis using z that(1) by (simp add: compute_drift_def Let_def)
  qed
  then show ?thesis using z by blast
qed

theorem psi_degenerate_zero_witness:
  "length (exact_edges [3] 10) < 3
   \<and> psi exact_edges [3] [1, 2, 3] 10 = 0
   \<and> to_float_array [Missing, Missing, Missing, Missing] = Inr []
   \<and> (\<exists>report. compute_drift exact_edges sessions_table sessions_table
          [''sessions_7d'', ''quiz_avg_score_7d''] (1 / 10) (1 / 4) = Inr report
        \<and> map_of (psi_by_feature report) ''quiz_avg_score_7d'' = Some 0)"
proof -
  have "exact_edges [3] 10 = [3]"
    by (simp add: exact_edges_def exact_quantile_def linspace01_def upt_rec)
  then have e: "length (exact_edges [3] 10) < 3" by simp
  then have h1: "[3] = ([] :: real list) \<or> [1, 2, 3] = ([] :: real list)
      \<or> length (exact_edges [3] 10) < 3"
    by simp
  have a: "psi exact_edges [3] [1, 2, 3] 10 = 0"
    using psi_degenerate_zero
      [where expected = "[3]" and actual = "[1, 2, 3]" and edges_of = exact_edges
        and buckets = 10, OF h1]
    by simp
  have d: "to_float_array [Missing, Missing, Missing, Missing] = Inr []"
    by simp
  have h2: "([] :: real list) = [] \<or> ([] :: real list) = [] \<or> length (exact_edges [] 10) < 3"
    by simp
  have n: "numeric_features sessions_table [''sessions_7d'', ''quiz_avg_score_7d'']"
    by (simp add: numeric_features_def numeric_cells_def sessions_table_def)
  have c: "\<exists>report. compute_drift exact_edges sessions_table sessions_table
          [''sessions_7d'', ''quiz_avg_score_7d''] (1 / 10) (1 / 4) = Inr report
        \<and> map_of (psi_by_feature report) ''quiz_avg_score_7d'' = Some 0"
    using psi_degenerate_zero
      [where expected = "[]" and actual = "[]" and edges_of = exact_edges and buckets = 10
        and base = sessions_table and cur = sessions_table
        and feature_cols = "[''sessions_7d'', ''quiz_avg_score_7d'']"
        and col = "''quiz_avg_score_7d''"
        and bs = "[Missing, Missing, Missing, Missing]"
        and cs = "[Missing, Missing, Missing, Missing]"
        and warn_psi = "1 / 10" and fail_psi = "1 / 4", OF h2] n d
    by (simp add: sessions_table_def)
  show ?thesis using e a d c by simp
qed

end
